theory Spec2Isabelle
  imports Main
begin

section \<open>Data model of \<^verbatim>\<open>httpx/proxy.go\<close>\<close>

text \<open>
  The reverse proxy of \<^verbatim>\<open>src/httpx/proxy.go\<close> is embedded as a pure function from
  the inbound request to the sequence of calls the handler makes on its collaborators
  (the response writer, the dialer, the transports, the connection takeover).

  \<^item> \<^verbatim>\<open>http.Header\<close> is Go's \<^verbatim>\<open>map[string][]string\<close>: a partial map from header
    names to value lists.
  \<^item> A Go \<^verbatim>\<open>error\<close> is its message.
  \<^item> A panic is the outcome \<open>Panicked\<close>; a normal return is \<open>Returned\<close>.
\<close>

type_synonym header = "string \<rightharpoonup> string list"

type_synonym error = string

text \<open>The fields of \<^verbatim>\<open>url.URL\<close> the handler reads or writes; the rest is carried along.\<close>

record url =
  Scheme :: string
  Host :: string
  Path :: string
  RawQuery :: string

text \<open>
  What \<^verbatim>\<open>ctx.Value(http.LocalAddrContextKey)\<close> may hold: nothing, a value that is not a
  \<^verbatim>\<open>net.Addr\<close>, or an address (given by its \<^verbatim>\<open>String()\<close>).
\<close>

datatype ctxval = NoValue | OtherValue | AddrValue string

text \<open>\<^verbatim>\<open>http.Request\<close>; \<open>ReqHost\<close> is the field \<^verbatim>\<open>req.Host\<close>.\<close>

record request =
  Method :: string
  URL :: url
  Proto :: string
  ProtoMajor :: nat
  ProtoMinor :: nat
  Header :: header
  Body :: string
  ReqHost :: string
  Close :: bool
  RemoteAddr :: string
  LocalAddrValue :: ctxval

text \<open>\<^verbatim>\<open>http.Response\<close>; \<open>Trailer\<close> is the trailer map as it stands once the body is read.\<close>

record response =
  StatusCode :: nat
  RespHeader :: header
  RespBody :: string
  Trailer :: header

text \<open>
  A backend connection: what the dialer returned (an opaque identifier), possibly wrapped
  by \<^verbatim>\<open>tls.Client(backend, p.TLSClientConfig)\<close>.
\<close>

datatype conn = NetConn nat | TLSClient conn "nat option"

text \<open>
  The calls the handler makes, in the order it makes them. \<open>EvWriteHeader code h\<close> is
  \<^verbatim>\<open>w.WriteHeader(code)\<close> made while \<^verbatim>\<open>w.Header()\<close> holds \<open>h\<close>; \<open>EvWrite\<close> is the
  body written by \<^verbatim>\<open>w.Write\<close> or \<^verbatim>\<open>netx.Copy(w, body)\<close>; \<open>EvTunnel\<close> stands for the two
  relay goroutines and the wait for their end.
\<close>

datatype event =
    EvWriteHeader nat header
  | EvWrite string
  | EvDial string string
  | EvRoundTrip request
  | EvConnRoundTrip conn request
  | EvDiscardBody
  | EvBodyClose
  | EvHijack
  | EvFlush
  | EvTunnel conn
  | EvFrontendClose
  | EvBackendClose conn

text \<open>The response writer: its header map \<^verbatim>\<open>w.Header()\<close> and the calls made so far.\<close>

record writer =
  WHeader :: header
  Trace :: "event list"

datatype outcome = Returned | Panicked error

text \<open>
  The struct \<^verbatim>\<open>ReverseProxy\<close>. A nil \<open>Transport\<close> or \<open>DialContext\<close> is \<open>None\<close>; the dialer
  takes the network and the address.
\<close>

record ReverseProxy =
  Transport :: "(request \<Rightarrow> error + response) option"
  DialContext :: "(string \<Rightarrow> string \<Rightarrow> error + conn) option"
  TLSClientConfig :: "nat option"

text \<open>
  The functions of package \<^verbatim>\<open>httpx\<close> and \<^verbatim>\<open>netx\<close> that \<^verbatim>\<open>proxy.go\<close> calls and that are
  not among the sources. The handler is parametric in them: \<open>copyHeader dst src\<close> and the
  other header functions return the header map they leave behind.
\<close>

record helpers =
  copyHeader :: "header \<Rightarrow> header \<Rightarrow> header"
  deleteHopFields :: "header \<Rightarrow> header"
  translateXForwarded :: "header \<Rightarrow> header"
  addForwarded :: "header \<Rightarrow> string \<Rightarrow> string \<Rightarrow> string \<Rightarrow> header"
  addVia :: "header \<Rightarrow> string \<Rightarrow> string \<Rightarrow> header"
  maxForwards :: "header \<Rightarrow> int \<times> error option"
  connectionUpgrade :: "header \<Rightarrow> string"
  protoVersion :: "request \<Rightarrow> string"
  SplitNetAddr :: "string \<Rightarrow> string \<times> string"

text \<open>
  The collaborators outside the handler: \<^verbatim>\<open>http.DefaultTransport\<close>, the default
  \<^verbatim>\<open>net.Dialer\<close>, the round trip of \<^verbatim>\<open>ConnTransport\<close> over a dedicated connection,
  \<^verbatim>\<open>httputil.DumpRequest\<close>, and the serving layer's takeover: \<open>Hijacker = None\<close> when
  the writer is no \<^verbatim>\<open>http.Hijacker\<close> (the type assertion panics), otherwise the error
  \<^verbatim>\<open>Hijack()\<close> returns, if any. \<open>FlushError\<close> is the result of \<^verbatim>\<open>rw.Writer.Flush()\<close>.
\<close>

record world =
  DefaultTransport :: "request \<Rightarrow> error + response"
  DefaultDial :: "string \<Rightarrow> string \<Rightarrow> error + conn"
  ConnRoundTrip :: "conn \<Rightarrow> request \<Rightarrow> error + response"
  DumpRequest :: "request \<Rightarrow> bool \<Rightarrow> error + string"
  Hijacker :: "error option option"
  FlushError :: "error option"

section \<open>Library functions\<close>

text \<open>\<^verbatim>\<open>strings.IndexByte\<close> and \<^verbatim>\<open>strings.LastIndexByte\<close>; \<open>None\<close> is Go's \<open>-1\<close>.\<close>

fun IndexByte :: "string \<Rightarrow> char \<Rightarrow> nat option" where
  "IndexByte [] c = None"
| "IndexByte (x # xs) c = (if x = c then Some 0 else map_option Suc (IndexByte xs c))"

definition LastIndexByte :: "string \<Rightarrow> char \<Rightarrow> nat option" where
  "LastIndexByte s c =
     (case IndexByte (rev s) c of None \<Rightarrow> None | Some i \<Rightarrow> Some (length s - 1 - i))"

text \<open>
  \<^verbatim>\<open>net.SplitHostPort\<close> of the Go standard library, returning host, port and error.
  \<open>splitTail\<close> is its last part: the checks for a stray bracket after positions \<open>j\<close> and
  \<open>k\<close>, then the port after the colon at \<open>i\<close>.
\<close>

definition splitTail :: "string \<Rightarrow> string \<Rightarrow> nat \<Rightarrow> nat \<Rightarrow> nat \<Rightarrow> string \<times> string \<times> error option" where
  "splitTail hostport host j k i =
     (if IndexByte (drop j hostport) (CHR ''['') \<noteq> None
        then ('''', '''', Some ''unexpected [ in address'')
      else if IndexByte (drop k hostport) (CHR '']'') \<noteq> None
        then ('''', '''', Some ''unexpected ] in address'')
      else (host, drop (i + 1) hostport, None))"

definition SplitHostPort :: "string \<Rightarrow> string \<times> string \<times> error option" where
  "SplitHostPort hostport =
     (case LastIndexByte hostport (CHR '':'') of
        None \<Rightarrow> ('''', '''', Some ''missing port in address'')
      | Some i \<Rightarrow>
          if hd hostport = CHR ''['' then
            (case IndexByte hostport (CHR '']'') of
               None \<Rightarrow> ('''', '''', Some ''missing ] in address'')
             | Some e \<Rightarrow>
                 if e + 1 = length hostport then ('''', '''', Some ''missing port in address'')
                 else if e + 1 = i then splitTail hostport (take (e - 1) (drop 1 hostport)) 1 (e + 1) i
                 else if hostport ! (e + 1) = CHR '':''
                   then ('''', '''', Some ''too many colons in address'')
                 else ('''', '''', Some ''missing port in address''))
          else
            (let host = take i hostport in
             if IndexByte host (CHR '':'') \<noteq> None
               then ('''', '''', Some ''too many colons in address'')
             else splitTail hostport host 0 0 i))"

text \<open>\<^verbatim>\<open>strconv.Itoa\<close>: the decimal form of an \<^verbatim>\<open>int\<close>.\<close>

fun FormatUint :: "nat \<Rightarrow> string" where
  "FormatUint n =
     (if n < 10 then [''0123456789'' ! n]
      else FormatUint (n div 10) @ [''0123456789'' ! (n mod 10)])"

declare FormatUint.simps [simp del]

definition Itoa :: "int \<Rightarrow> string" where
  "Itoa i = (if i < 0 then CHR ''-'' # FormatUint (nat (- i)) else FormatUint (nat i))"

text \<open>
  The statement \<^verbatim>\<open>max--\<close> on Go's 64-bit \<^verbatim>\<open>int\<close>: the smallest value wraps around.
\<close>

definition dec64 :: "int \<Rightarrow> int" where
  "dec64 m = (if m = - 9223372036854775808 then 9223372036854775807 else m - 1)"

text \<open>\<^verbatim>\<open>Header.Set\<close> with a key already in canonical form: the key holds the one value.\<close>

definition HeaderSet :: "header \<Rightarrow> string \<Rightarrow> string \<Rightarrow> header" where
  "HeaderSet h k v = h(k \<mapsto> [v])"

section \<open>The response writer\<close>

definition emit :: "writer \<Rightarrow> event \<Rightarrow> writer" where
  "emit w e = w\<lparr>Trace := Trace w @ [e]\<rparr>"

definition WriteHeader :: "writer \<Rightarrow> nat \<Rightarrow> writer" where
  "WriteHeader w code = emit w (EvWriteHeader code (WHeader w))"

definition Write :: "writer \<Rightarrow> string \<Rightarrow> writer" where
  "Write w content = emit w (EvWrite content)"

section \<open>The handlers\<close>

text \<open>\<^verbatim>\<open>contextLocalAddr\<close> and \<^verbatim>\<open>requestLocalAddr\<close> (lines 323 to 341).\<close>

definition contextLocalAddr :: "ctxval \<Rightarrow> string option" where
  "contextLocalAddr val =
     (case val of NoValue \<Rightarrow> None | OtherValue \<Rightarrow> None | AddrValue a \<Rightarrow> Some a)"

definition requestLocalAddr :: "request \<Rightarrow> string" where
  "requestLocalAddr req =
     (case contextLocalAddr (LocalAddrValue req) of None \<Rightarrow> '''' | Some a \<Rightarrow> a)"

text \<open>\<^verbatim>\<open>guessScheme\<close> (lines 303 to 314).\<close>

definition guessScheme :: "helpers \<Rightarrow> string \<Rightarrow> string \<Rightarrow> string" where
  "guessScheme H localAddr remoteAddr =
     (if fst (SplitNetAddr H localAddr) = ''tls'' then ''https''
      else
        (let port = fst (snd (SplitHostPort remoteAddr)) in
         if port = '''' \<or> port = ''80'' then ''http''
         else if port = ''443'' then ''https''
         else ''http''))"

text \<open>\<^verbatim>\<open>serveOPTIONS\<close> (lines 211 to 213).\<close>

definition serveOPTIONS :: "writer \<Rightarrow> request \<Rightarrow> writer \<times> outcome" where
  "serveOPTIONS w req = (WriteHeader w 200, Returned)"

text \<open>\<^verbatim>\<open>serveTRACE\<close> (lines 215 to 223).\<close>

definition serveTRACE :: "world \<Rightarrow> writer \<Rightarrow> request \<Rightarrow> writer \<times> outcome" where
  "serveTRACE W w req =
     (case DumpRequest W req True of
        Inl err \<Rightarrow> (w, Panicked err)
      | Inr content \<Rightarrow>
          (let w = w\<lparr>WHeader := HeaderSet (WHeader w) ''Content-Type'' ''message/http''\<rparr>;
               w = WriteHeader w 200;
               w = Write w content
           in (w, Returned)))"

text \<open>
  \<^verbatim>\<open>serveCONNECT\<close> (lines 152 to 209). The deferred \<^verbatim>\<open>backend.Close()\<close> and
  \<^verbatim>\<open>frontend.Close()\<close> run at every exit after their \<^verbatim>\<open>defer\<close>, a panic included.
\<close>

definition serveCONNECT :: "world \<Rightarrow> ReverseProxy \<Rightarrow> writer \<Rightarrow> request \<Rightarrow> writer \<times> outcome" where
  "serveCONNECT W p w req =
     (let dial = (case DialContext p of None \<Rightarrow> DefaultDial W | Some d \<Rightarrow> d);
          w = emit w (EvDial ''tcp'' (Host (URL req)))
      in case dial ''tcp'' (Host (URL req)) of
           Inl err \<Rightarrow> (WriteHeader w 502, Returned)
         | Inr backend \<Rightarrow>
             (let w = emit w EvDiscardBody;
                  w = emit w EvBodyClose;
                  w = WriteHeader w 200
              in case Hijacker W of
                   None \<Rightarrow> (emit w (EvBackendClose backend), Panicked ''interface conversion'')
                 | Some (Some err) \<Rightarrow>
                     (emit (emit w EvHijack) (EvBackendClose backend), Panicked err)
                 | Some None \<Rightarrow>
                     (let w = emit w EvHijack;
                          w = emit w (EvTunnel backend);
                          w = emit w EvFrontendClose;
                          w = emit w (EvBackendClose backend)
                      in (w, Returned))))"

text \<open>
  \<^verbatim>\<open>serveUpgrade\<close> (lines 225 to 299), in three parts. \<open>relayedHeader\<close> is lines 255 to
  260: the response header with the hop-by-hop fields removed, and \<^verbatim>\<open>Upgrade\<close> put back
  with \<^verbatim>\<open>Connection: Upgrade\<close> when the response had one.
\<close>

definition relayedHeader :: "helpers \<Rightarrow> response \<Rightarrow> header" where
  "relayedHeader H res =
     (let upgrade = (case RespHeader res ''Upgrade'' of None \<Rightarrow> [] | Some vs \<Rightarrow> vs);
          h = deleteHopFields H (RespHeader res)
      in if upgrade \<noteq> []
         then h(''Upgrade'' \<mapsto> upgrade, ''Connection'' \<mapsto> [''Upgrade''])
         else h)"

text \<open>
  Lines 272 to 299: the takeover of the client connection and the tunnel. \<open>EvHijack\<close> is
  the call \<^verbatim>\<open>Hijack()\<close>, whatever it returns; the deferred \<^verbatim>\<open>backend.Close()\<close> of line
  241 runs at every exit.
\<close>

definition tunnelUpgrade :: "world \<Rightarrow> writer \<Rightarrow> conn \<Rightarrow> writer \<times> outcome" where
  "tunnelUpgrade W w backend =
     (case Hijacker W of
        None \<Rightarrow> (emit w (EvBackendClose backend), Panicked ''interface conversion'')
      | Some (Some err) \<Rightarrow>
          (emit (WriteHeader (emit w EvHijack) 500) (EvBackendClose backend), Returned)
      | Some None \<Rightarrow>
          (let w = emit w EvHijack;
               w = emit w EvFlush
           in case FlushError W of
                Some err \<Rightarrow> (emit (emit w EvFrontendClose) (EvBackendClose backend), Returned)
              | None \<Rightarrow>
                  (let w = emit w (EvTunnel backend);
                       w = emit w EvFrontendClose;
                       w = emit w (EvBackendClose backend)
                   in (w, Returned))))"

text \<open>Lines 226 to 270: the dial, the one exchange with the backend and its relay.\<close>

definition serveUpgrade :: "helpers \<Rightarrow> world \<Rightarrow> ReverseProxy \<Rightarrow> writer \<Rightarrow> request \<Rightarrow> writer \<times> outcome" where
  "serveUpgrade H W p w req =
     (let dial = (case DialContext p of None \<Rightarrow> DefaultDial W | Some d \<Rightarrow> d);
          w = emit w (EvDial ''tcp'' (Host (URL req)))
      in case dial ''tcp'' (Host (URL req)) of
           Inl err \<Rightarrow> (WriteHeader w 502, Returned)
         | Inr backend0 \<Rightarrow>
             (let backend = (if Scheme (URL req) = ''https''
                             then TLSClient backend0 (TLSClientConfig p) else backend0);
                  w = emit w (EvConnRoundTrip backend req)
              in case ConnRoundTrip W backend req of
                   Inl err \<Rightarrow> (emit (WriteHeader w 502) (EvBackendClose backend), Returned)
                 | Inr res \<Rightarrow>
                     (let w = w\<lparr>WHeader := copyHeader H (WHeader w) (relayedHeader H res)\<rparr>;
                          w = WriteHeader w (StatusCode res);
                          w = Write w (RespBody res);
                          w = emit w EvBodyClose
                      in if StatusCode res \<noteq> 101 then (emit w (EvBackendClose backend), Returned)
                         else tunnelUpgrade W w backend)))"

text \<open>
  \<^verbatim>\<open>ServeHTTP\<close> (lines 56 to 150), in four parts. \<open>newOutreq\<close> is lines 57 to 86: the copy
  of the request with the protocol pinned, the host and scheme filled in, and the headers
  copied and stripped.
\<close>

definition newOutreq :: "helpers \<Rightarrow> request \<Rightarrow> request" where
  "newOutreq H req =
     (let localAddr = requestLocalAddr req;
          outreq = req\<lparr>Header := Map.empty, Proto := ''HTTP/1.1'', ProtoMajor := 1,
                       ProtoMinor := 1, Close := False\<rparr>;
          outreq = (if Host (URL outreq) = ''''
                    then outreq\<lparr>URL := (URL outreq)\<lparr>Host := ReqHost req\<rparr>\<rparr> else outreq);
          outreq = (if Scheme (URL outreq) = ''''
                    then outreq\<lparr>URL := (URL outreq)\<lparr>Scheme := guessScheme H localAddr (Host (URL req))\<rparr>\<rparr>
                    else outreq);
          outreq = outreq\<lparr>Header := copyHeader H (Header outreq) (Header req)\<rparr>;
          outreq = outreq\<lparr>Header := deleteHopFields H (Header outreq)\<rparr>
      in outreq)"

text \<open>Lines 95 to 100: the proxy headers \<^verbatim>\<open>Forwarded\<close> and \<^verbatim>\<open>Via\<close>.\<close>

definition addProxyHeaders :: "helpers \<Rightarrow> request \<Rightarrow> request \<Rightarrow> request" where
  "addProxyHeaders H req outreq =
     (let remoteAddr = RemoteAddr req;
          localAddr = requestLocalAddr req;
          outreq = (if Header outreq ''Forwarded'' = None
                    then outreq\<lparr>Header := translateXForwarded H (Header outreq)\<rparr> else outreq);
          outreq = outreq\<lparr>Header := addForwarded H (Header outreq) (Scheme (URL outreq)) remoteAddr localAddr\<rparr>;
          outreq = outreq\<lparr>Header := addVia H (Header outreq) (protoVersion H req) localAddr\<rparr>
      in outreq)"

text \<open>
  Lines 120 to 150: the protocol upgrade, asked for by the inbound headers, or the round
  trip through the transport and the relay of its response.
\<close>

definition forwardRequest :: "helpers \<Rightarrow> world \<Rightarrow> ReverseProxy \<Rightarrow> writer \<Rightarrow> request \<Rightarrow> request \<Rightarrow> writer \<times> outcome" where
  "forwardRequest H W p w req outreq =
     (let upgrade = connectionUpgrade H (Header req) in
      if upgrade \<noteq> '''' then
        (let outreq = outreq\<lparr>Header := HeaderSet (Header outreq) ''Connection'' ''Upgrade''\<rparr>;
             outreq = outreq\<lparr>Header := HeaderSet (Header outreq) ''Upgrade'' upgrade\<rparr>
         in serveUpgrade H W p w outreq)
      else
        (let transport = (case Transport p of None \<Rightarrow> DefaultTransport W | Some t \<Rightarrow> t);
             w = emit w (EvRoundTrip outreq)
         in case transport outreq of
              Inl err \<Rightarrow> (WriteHeader w 502, Returned)
            | Inr res \<Rightarrow>
                (let w = w\<lparr>WHeader := copyHeader H (WHeader w) (deleteHopFields H (RespHeader res))\<rparr>;
                     w = WriteHeader w (StatusCode res);
                     w = Write w (RespBody res);
                     w = emit w EvBodyClose;
                     w = w\<lparr>WHeader := copyHeader H (WHeader w) (deleteHopFields H (Trailer res))\<rparr>
                 in (w, Returned))))"

text \<open>Lines 102 to 118: the switch on the method, with the \<^verbatim>\<open>Max-Forwards\<close> guard.\<close>

definition dispatch :: "helpers \<Rightarrow> world \<Rightarrow> ReverseProxy \<Rightarrow> writer \<Rightarrow> request \<Rightarrow> request \<Rightarrow> writer \<times> outcome" where
  "dispatch H W p w req outreq =
     (let method = Method outreq in
      if method = ''CONNECT'' then serveCONNECT W p w outreq
      else if method = ''TRACE'' \<or> method = ''OPTIONS'' then
        (let (max0, err) = maxForwards H (Header outreq);
             max1 = dec64 max0
         in if max1 = 0 \<or> err \<noteq> None then
              (if method = ''TRACE'' then serveTRACE W w outreq else serveOPTIONS w outreq)
            else forwardRequest H W p w req
                   (outreq\<lparr>Header := HeaderSet (Header outreq) ''Max-Forward'' (Itoa max1)\<rparr>))
      else forwardRequest H W p w req outreq)"

definition ServeHTTP :: "helpers \<Rightarrow> world \<Rightarrow> ReverseProxy \<Rightarrow> writer \<Rightarrow> request \<Rightarrow> writer \<times> outcome" where
  "ServeHTTP H W p w req =
     (let outreq = newOutreq H req in
      if Host (URL outreq) = '''' then (WriteHeader w 400, Returned)
      else dispatch H W p w req (addProxyHeaders H req outreq))"

section \<open>A reference instance of the missing functions\<close>

text \<open>
  The theorems on \<open>ServeHTTP\<close> hold for every value of \<open>helpers\<close>. To run the handler
  on concrete requests, and for the claims about the header functions themselves, the
  functions that are not among the sources are modelled from the specification.
\<close>

text \<open>\<^verbatim>\<open>Header.Get\<close> with a key in canonical form: the first value, or the empty string.\<close>

definition HeaderGet :: "header \<Rightarrow> string \<Rightarrow> string" where
  "HeaderGet h k = (case h k of None \<Rightarrow> '''' | Some [] \<Rightarrow> '''' | Some (v # vs) \<Rightarrow> v)"

definition lowerChar :: "char \<Rightarrow> char" where
  "lowerChar c =
     (case IndexByte ''ABCDEFGHIJKLMNOPQRSTUVWXYZ'' c of
        None \<Rightarrow> c | Some i \<Rightarrow> ''abcdefghijklmnopqrstuvwxyz'' ! i)"

definition upperChar :: "char \<Rightarrow> char" where
  "upperChar c =
     (case IndexByte ''abcdefghijklmnopqrstuvwxyz'' c of
        None \<Rightarrow> c | Some i \<Rightarrow> ''ABCDEFGHIJKLMNOPQRSTUVWXYZ'' ! i)"

text \<open>
  The canonical form of a header name, as \<^verbatim>\<open>net/http\<close> keeps the keys of a header map: a
  capital first letter and a capital after every hyphen, lower case elsewhere. It is how
  the model reads the specification's "keys case-insensitive".
\<close>

fun canonicalFrom :: "bool \<Rightarrow> string \<Rightarrow> string" where
  "canonicalFrom up [] = []"
| "canonicalFrom up (c # cs) =
     (if up then upperChar c else lowerChar c) # canonicalFrom (c = CHR ''-'') cs"

definition CanonicalHeaderKey :: "string \<Rightarrow> string" where
  "CanonicalHeaderKey s = canonicalFrom True s"

text \<open>Splitting a header value at its commas, and trimming blanks around a token.\<close>

fun splitComma :: "string \<Rightarrow> string list" where
  "splitComma [] = [[]]"
| "splitComma (c # cs) =
     (if c = CHR '','' then [] # splitComma cs
      else (case splitComma cs of [] \<Rightarrow> [[c]] | t # ts \<Rightarrow> (c # t) # ts))"

definition trimSpace :: "string \<Rightarrow> string" where
  "trimSpace s = rev (dropWhile (\<lambda>c. c = CHR '' '') (rev (dropWhile (\<lambda>c. c = CHR '' '') s)))"

definition headerTokens :: "header \<Rightarrow> string \<Rightarrow> string list" where
  "headerTokens h k =
     filter (\<lambda>t. t \<noteq> [])
       (map trimSpace (concat (map splitComma (case h k of None \<Rightarrow> [] | Some vs \<Rightarrow> vs))))"

text \<open>Joining the values of a header, and adding one more entry after them.\<close>

fun joinWith :: "string \<Rightarrow> string list \<Rightarrow> string" where
  "joinWith sep [] = []"
| "joinWith sep [x] = x"
| "joinWith sep (x # y # ys) = x @ sep @ joinWith sep (y # ys)"

definition appendEntry :: "header \<Rightarrow> string \<Rightarrow> string \<Rightarrow> header" where
  "appendEntry h k entry =
     h(k \<mapsto> [joinWith '', '' ((case h k of None \<Rightarrow> [] | Some vs \<Rightarrow> vs) @ [entry])])"

text \<open>
  Modelled from the spec: \<^verbatim>\<open>copyHeader(dst, src)\<close> is not among the sources. Section 4.4
  has it copy the header collection into an owned one, section 4.5 copy the response
  headers and the trailers to the client: every value of \<open>src\<close> is added to \<open>dst\<close> under
  its key.
\<close>

definition specCopyHeader :: "header \<Rightarrow> header \<Rightarrow> header" where
  "specCopyHeader dst src =
     (\<lambda>k. case src k of
            None \<Rightarrow> dst k
          | Some vs \<Rightarrow> Some ((case dst k of None \<Rightarrow> [] | Some ws \<Rightarrow> ws) @ vs))"

text \<open>
  Modelled from the spec: the hop-by-hop set of section 3, that is the names listed in the
  values of \<^verbatim>\<open>Connection\<close> and the fixed names, all in canonical form (\<^verbatim>\<open>TE\<close> is the key
  \<^verbatim>\<open>Te\<close>).
\<close>

definition fixedHopFields :: "string list" where
  "fixedHopFields =
     [''Connection'', ''Keep-Alive'', ''Proxy-Authenticate'', ''Proxy-Authorization'',
      ''Te'', ''Trailers'', ''Transfer-Encoding'', ''Upgrade'']"

definition hopFields :: "header \<Rightarrow> string list" where
  "hopFields h = map CanonicalHeaderKey (headerTokens h ''Connection'') @ fixedHopFields"

text \<open>
  Modelled from the spec: \<^verbatim>\<open>deleteHopFields\<close> is not among the sources. Section 4.1:
  "given a header multimap, remove every name in HopByHopSet, including names listed as
  values of a Connection header".
\<close>

definition specDeleteHopFields :: "header \<Rightarrow> header" where
  "specDeleteHopFields h = (\<lambda>k. if k \<in> set (hopFields h) then None else h k)"

text \<open>
  Modelled from the spec: \<^verbatim>\<open>translateXForwarded\<close> is not among the sources. Section 4.2:
  one hop from \<^verbatim>\<open>X-Forwarded-For\<close>, \<^verbatim>\<open>X-Forwarded-Host\<close> and \<^verbatim>\<open>X-Forwarded-Proto\<close>,
  whichever are present, when there is no \<^verbatim>\<open>Forwarded\<close> key. The legacy headers are
  left in place, and no header is written when none of the three is present.
\<close>

definition forwardedField :: "string \<Rightarrow> string \<Rightarrow> string list" where
  "forwardedField name v = (if v = '''' then [] else [name @ ''='' @ v])"

definition specTranslateXForwarded :: "header \<Rightarrow> header" where
  "specTranslateXForwarded h =
     (if h ''Forwarded'' \<noteq> None then h
      else
        (let fields = forwardedField ''for'' (HeaderGet h ''X-Forwarded-For'')
                    @ forwardedField ''host'' (HeaderGet h ''X-Forwarded-Host'')
                    @ forwardedField ''proto'' (HeaderGet h ''X-Forwarded-Proto'')
         in if fields = [] then h else h(''Forwarded'' \<mapsto> [joinWith '';'' fields])))"

text \<open>
  Modelled from the spec: \<^verbatim>\<open>addForwarded\<close> is not among the sources. Section 4.2: one hop
  with \<^verbatim>\<open>proto\<close> the scheme, \<^verbatim>\<open>for\<close> the host part of the remote address and \<^verbatim>\<open>by\<close>
  the local address, an empty field left out, appended to the hops already there. A value
  with a colon is quoted, and an IPv6 host is put in brackets first.
\<close>

definition quoteNode :: "bool \<Rightarrow> string \<Rightarrow> string" where
  "quoteNode bracket a =
     (if CHR '':'' \<in> set a
      then [CHR 0x22] @ (if bracket then ''['' @ a @ '']'' else a) @ [CHR 0x22]
      else a)"

definition hostPart :: "string \<Rightarrow> string" where
  "hostPart addr =
     (case SplitHostPort addr of (host, port, None) \<Rightarrow> host | (host, port, Some err) \<Rightarrow> addr)"

definition specAddForwarded :: "header \<Rightarrow> string \<Rightarrow> string \<Rightarrow> string \<Rightarrow> header" where
  "specAddForwarded h scheme remoteAddr localAddr =
     appendEntry h ''Forwarded''
       (joinWith '';''
          (forwardedField ''proto'' scheme
           @ forwardedField ''for'' (quoteNode True (hostPart remoteAddr))
           @ forwardedField ''by'' (quoteNode False localAddr)))"

text \<open>
  Modelled from the spec: \<^verbatim>\<open>addVia\<close> is not among the sources. Section 4.2: the entry
  "protoVersion, blank, local address or pseudonym" is appended to \<^verbatim>\<open>Via\<close>, comma-joined
  with any prior value. The specification leaves the pseudonym open; \<open>''localhost''\<close>
  stands for it.
\<close>

definition specAddVia :: "header \<Rightarrow> string \<Rightarrow> string \<Rightarrow> header" where
  "specAddVia h version localAddr =
     appendEntry h ''Via'' (version @ '' '' @ (if localAddr = '''' then ''localhost'' else localAddr))"

text \<open>
  \<^verbatim>\<open>strconv.Atoi\<close> of the Go standard library on a 64-bit \<^verbatim>\<open>int\<close>: an optional sign, then
  decimal digits only; the value and the error.
\<close>

definition digitVal :: "char \<Rightarrow> nat option" where
  "digitVal c = IndexByte ''0123456789'' c"

fun parseDigits :: "nat \<Rightarrow> string \<Rightarrow> nat option" where
  "parseDigits acc [] = Some acc"
| "parseDigits acc (c # cs) =
     (case digitVal c of None \<Rightarrow> None | Some d \<Rightarrow> parseDigits (10 * acc + d) cs)"

definition Atoi :: "string \<Rightarrow> int \<times> error option" where
  "Atoi s =
     (let neg = (s \<noteq> [] \<and> hd s = CHR ''-'');
          ds = (if s \<noteq> [] \<and> (hd s = CHR ''-'' \<or> hd s = CHR ''+'') then tl s else s)
      in if ds = [] then (0, Some ''invalid syntax'')
         else
           (case parseDigits 0 ds of
              None \<Rightarrow> (0, Some ''invalid syntax'')
            | Some n \<Rightarrow>
                if \<not> neg \<and> 9223372036854775807 < n
                  then (9223372036854775807, Some ''value out of range'')
                else if neg \<and> 9223372036854775808 < n
                  then (- 9223372036854775808, Some ''value out of range'')
                else (if neg then - int n else int n, None)))"

text \<open>
  Modelled from the spec: \<^verbatim>\<open>maxForwards\<close> is not among the sources. Section 4.3: it
  "reads Max-Forwards as an integer"; an absent header reads as the empty string, which is
  no integer, so that absent and unparsable both give an error.
\<close>

definition specMaxForwards :: "header \<Rightarrow> int \<times> error option" where
  "specMaxForwards h = Atoi (HeaderGet h ''Max-Forwards'')"

text \<open>
  Modelled from the spec: \<^verbatim>\<open>connectionUpgrade\<close> is not among the sources. Section 4.5:
  the "inbound Connection header requests an upgrade (non-empty Upgrade token)": when
  \<^verbatim>\<open>Connection\<close> lists \<^verbatim>\<open>upgrade\<close>, the value of the \<^verbatim>\<open>Upgrade\<close> header.
\<close>

definition specConnectionUpgrade :: "header \<Rightarrow> string" where
  "specConnectionUpgrade h =
     (if ''Upgrade'' \<in> set (map CanonicalHeaderKey (headerTokens h ''Connection''))
      then HeaderGet h ''Upgrade'' else '''')"

text \<open>
  Modelled from the spec: \<^verbatim>\<open>protoVersion\<close> is not among the sources. Section 3: the
  protocol version of a \<^verbatim>\<open>Via\<close> entry, here major, dot, minor.
\<close>

definition specProtoVersion :: "request \<Rightarrow> string" where
  "specProtoVersion req = FormatUint (ProtoMajor req) @ ''.'' @ FormatUint (ProtoMinor req)"

text \<open>
  Modelled from the spec: \<^verbatim>\<open>netx.SplitNetAddr\<close> is not among the sources. Section 3: the
  local listener address "may carry a transport tag"; the tag is what stands before
  \<^verbatim>\<open>://\<close>, and is empty without one.
\<close>

fun splitScheme :: "string \<Rightarrow> string \<Rightarrow> string \<times> string" where
  "splitScheme acc [] = ('''', rev acc)"
| "splitScheme acc (c # cs) =
     (if take 3 (c # cs) = ''://'' then (rev acc, drop 3 (c # cs)) else splitScheme (c # acc) cs)"

definition specSplitNetAddr :: "string \<Rightarrow> string \<times> string" where
  "specSplitNetAddr s = splitScheme [] s"

definition specHelpers :: helpers where
  "specHelpers =
     \<lparr>copyHeader = specCopyHeader,
      deleteHopFields = specDeleteHopFields,
      translateXForwarded = specTranslateXForwarded,
      addForwarded = specAddForwarded,
      addVia = specAddVia,
      maxForwards = specMaxForwards,
      connectionUpgrade = specConnectionUpgrade,
      protoVersion = specProtoVersion,
      SplitNetAddr = specSplitNetAddr\<rparr>"

section \<open>Reading a trace\<close>

text \<open>
  The requests handed to a backend, through the transport or over a dedicated connection,
  and the header maps the response writer held at each \<^verbatim>\<open>WriteHeader\<close>.
\<close>

fun outboundRequests :: "event list \<Rightarrow> request list" where
  "outboundRequests [] = []"
| "outboundRequests (EvRoundTrip r # es) = r # outboundRequests es"
| "outboundRequests (EvConnRoundTrip c r # es) = r # outboundRequests es"
| "outboundRequests (e # es) = outboundRequests es"

fun writtenHeaders :: "event list \<Rightarrow> (nat \<times> header) list" where
  "writtenHeaders [] = []"
| "writtenHeaders (EvWriteHeader code h # es) = (code, h) # writtenHeaders es"
| "writtenHeaders (e # es) = writtenHeaders es"

section \<open>Sample requests and collaborators\<close>

text \<open>
  A fresh response writer, a proxy with no field set, a backend that answers every request
  with the given status, and a client request with the given method, target and headers,
  received on the listener \<^verbatim>\<open>10.0.0.1:8080\<close>.
\<close>

definition freshWriter :: writer where
  "freshWriter = \<lparr>WHeader = Map.empty, Trace = []\<rparr>"

definition plainProxy :: ReverseProxy where
  "plainProxy = \<lparr>Transport = None, DialContext = None, TLSClientConfig = None\<rparr>"

definition backendResponse :: "nat \<Rightarrow> header \<Rightarrow> response" where
  "backendResponse code h =
     \<lparr>StatusCode = code, RespHeader = h, RespBody = ''ok'', Trailer = Map.empty\<rparr>"

definition backendWorld :: "nat \<Rightarrow> header \<Rightarrow> world" where
  "backendWorld code h =
     \<lparr>DefaultTransport = (\<lambda>r. Inr (backendResponse code h)),
      DefaultDial = (\<lambda>network address. Inr (NetConn 1)),
      ConnRoundTrip = (\<lambda>c r. Inr (backendResponse code h)),
      DumpRequest = (\<lambda>r body. Inr (Method r @ '' '' @ Path (URL r) @ '' '' @ Proto r)),
      Hijacker = Some None,
      FlushError = None\<rparr>"

definition brokenDumpWorld :: world where
  "brokenDumpWorld = (backendWorld 200 Map.empty)\<lparr>DumpRequest := (\<lambda>r body. Inl ''unexpected EOF'')\<rparr>"

definition clientRequest :: "string \<Rightarrow> string \<Rightarrow> string \<Rightarrow> header \<Rightarrow> request" where
  "clientRequest m scheme target h =
     \<lparr>Method = m,
      URL = \<lparr>Scheme = scheme, Host = target, Path = ''/'', RawQuery = ''''\<rparr>,
      Proto = ''HTTP/1.0'', ProtoMajor = 1, ProtoMinor = 0,
      Header = h, Body = '''', ReqHost = target, Close = True,
      RemoteAddr = ''10.0.0.7:4711'', LocalAddrValue = AddrValue ''10.0.0.1:8080''\<rparr>"



definition upgradeRequest :: request where
  "upgradeRequest = clientRequest ''GET'' ''http'' ''backend:80''
      [''Connection'' \<mapsto> [''Upgrade''], ''Upgrade'' \<mapsto> [''websocket'']]"

definition traceRequest :: request where
  "traceRequest = clientRequest ''TRACE'' ''http'' ''backend:80''
      [''Max-Forwards'' \<mapsto> [''1''], ''Keep-Alive'' \<mapsto> [''timeout=5'']]"

definition plainHeader :: header where
  "plainHeader = [''Content-Type'' \<mapsto> [''text/plain''], ''Keep-Alive'' \<mapsto> [''timeout=5'']]"


text \<open>An \<^verbatim>\<open>OPTIONS\<close> request with the given \<^verbatim>\<open>Max-Forwards\<close> value.\<close>

definition optionsRequest :: "string \<Rightarrow> request" where
  "optionsRequest v = clientRequest ''OPTIONS'' ''http'' ''backend:80'' [''Max-Forwards'' \<mapsto> [v]]"

section \<open>Basic facts about the handlers\<close>

lemmas spec_defs = specHelpers_def specCopyHeader_def specDeleteHopFields_def specTranslateXForwarded_def
  specAddForwarded_def specAddVia_def specMaxForwards_def specConnectionUpgrade_def specProtoVersion_def
  specSplitNetAddr_def hopFields_def fixedHopFields_def headerTokens_def HeaderGet_def appendEntry_def
  forwardedField_def quoteNode_def hostPart_def Atoi_def digitVal_def CanonicalHeaderKey_def trimSpace_def
  upperChar_def lowerChar_def SplitHostPort_def splitTail_def LastIndexByte_def Itoa_def FormatUint.simps

text \<open>The fields of the outbound request as lines 57 to 100 leave them.\<close>

lemma newOutreq_fields:
  "Method (newOutreq H req) = Method req"
  "Proto (newOutreq H req) = ''HTTP/1.1''"
  "ProtoMajor (newOutreq H req) = 1"
  "ProtoMinor (newOutreq H req) = 1"
  "Close (newOutreq H req) = False"
  "Header (newOutreq H req) = deleteHopFields H (copyHeader H Map.empty (Header req))"
  "Host (URL (newOutreq H req)) = (if Host (URL req) = '''' then ReqHost req else Host (URL req))"
  by (simp_all add: newOutreq_def Let_def)

lemma addProxyHeaders_fields:
  "Method (addProxyHeaders H req out) = Method out"
  "URL (addProxyHeaders H req out) = URL out"
  "Proto (addProxyHeaders H req out) = Proto out"
  "ProtoMajor (addProxyHeaders H req out) = ProtoMajor out"
  "ProtoMinor (addProxyHeaders H req out) = ProtoMinor out"
  by (simp_all add: addProxyHeaders_def Let_def)

lemma addProxyHeaders_Header:
  "Header (addProxyHeaders H req out) =
     addVia H
       (addForwarded H
          (if Header out ''Forwarded'' = None then translateXForwarded H (Header out) else Header out)
          (Scheme (URL out)) (RemoteAddr req) (requestLocalAddr req))
       (protoVersion H req) (requestLocalAddr req)"
  by (simp add: addProxyHeaders_def Let_def)



lemma serveUpgrade_not_switched:
  assumes "(case DialContext p of None \<Rightarrow> DefaultDial W | Some d \<Rightarrow> d) ''tcp'' (Host (URL req)) = Inr c"
      and "backend = (if Scheme (URL req) = ''https'' then TLSClient c (TLSClientConfig p) else c)"
      and "ConnRoundTrip W backend req = Inr res"
      and "StatusCode res \<noteq> 101"
  shows "serveUpgrade H W p w req =
          (w\<lparr>WHeader := copyHeader H (WHeader w) (relayedHeader H res),
             Trace := Trace w @
               [EvDial ''tcp'' (Host (URL req)),
                EvConnRoundTrip backend req,
                EvWriteHeader (StatusCode res) (copyHeader H (WHeader w) (relayedHeader H res)),
                EvWrite (RespBody res),
                EvBodyClose,
                EvBackendClose backend]\<rparr>,
           Returned)"
  using assms
  by (simp add: serveUpgrade_def WriteHeader_def Write_def emit_def Let_def)



section \<open>The claims\<close>

subsection \<open>C3: no target host\<close>

text \<open>
  C3. For every inbound request whose resolved outbound URL host is empty (the URL host,
  or else the \<^verbatim>\<open>Host\<close> header, lines 73 to 75), the handler answers 400 and does nothing
  else: the only call it makes is \<^verbatim>\<open>w.WriteHeader(400)\<close>, so neither the dialer nor a
  transport is invoked. It holds whatever the header functions do.
\<close>

theorem empty_host_bad_request:
  assumes "Host (URL (newOutreq H req)) = ''''"
  shows "ServeHTTP H W p w req =
           (w\<lparr>Trace := Trace w @ [EvWriteHeader 400 (WHeader w)]\<rparr>, Returned)"
  using assms by (simp add: ServeHTTP_def WriteHeader_def emit_def Let_def)

theorem empty_host_bad_request_witness:
  "Host (URL (newOutreq specHelpers (clientRequest ''GET'' ''http'' '''' [''Accept'' \<mapsto> [''*/*'']]))) = ''''
   \<and> ServeHTTP specHelpers (backendWorld 200 Map.empty) plainProxy freshWriter
         (clientRequest ''GET'' ''http'' '''' [''Accept'' \<mapsto> [''*/*'']])
       = (\<lparr>WHeader = Map.empty, Trace = [EvWriteHeader 400 Map.empty]\<rparr>, Returned)"
proof -
  have h: "Host (URL (newOutreq specHelpers (clientRequest ''GET'' ''http'' '''' [''Accept'' \<mapsto> [''*/*'']]))) = ''''"
    by (simp add: newOutreq_fields clientRequest_def)
  from empty_host_bad_request [OF h, of "backendWorld 200 Map.empty" plainProxy freshWriter]
  show ?thesis using h by (simp add: freshWriter_def)
qed

subsection \<open>C4: the inferred scheme\<close>



text \<open>The cases of \<open>guessScheme\<close> on sample addresses.\<close>

lemma guessScheme_examples:
  "guessScheme specHelpers ''tls://10.0.0.1:443'' ''backend:8080'' = ''https''"
  "guessScheme specHelpers ''10.0.0.1:8080'' ''backend:443'' = ''https''"
  "guessScheme specHelpers ''10.0.0.1:8080'' ''[::1]:443'' = ''https''"
  "guessScheme specHelpers ''10.0.0.1:8080'' ''backend:80'' = ''http''"
  "guessScheme specHelpers ''10.0.0.1:8080'' ''backend:8080'' = ''http''"
  "guessScheme specHelpers ''10.0.0.1:8080'' ''backend'' = ''http''"
  "guessScheme specHelpers ''10.0.0.1:8080'' '''' = ''http''"
  by (simp_all add: guessScheme_def specHelpers_def
          specSplitNetAddr_def SplitHostPort_def splitTail_def LastIndexByte_def)

subsection \<open>C5: Forwarded and the legacy headers\<close>



subsection \<open>C7: an upgrade the backend does not accept\<close>

text \<open>
  C7. For every exchange on the upgrade path (the dial succeeded, the round trip over the
  dedicated connection returned a response) whose status is not 101, the handler relays
  the response: it copies the response headers, stripped of the hop-by-hop fields with
  \<^verbatim>\<open>Upgrade\<close> put back, into the writer, writes the status and then the body. It then
  returns: there is no \<^verbatim>\<open>Hijack()\<close> and no tunnel, and the last call is the close of the
  backend connection, which was dialled for this exchange alone.
\<close>

theorem upgrade_refused_relayed:
  assumes "(case DialContext p of None \<Rightarrow> DefaultDial W | Some d \<Rightarrow> d) ''tcp'' (Host (URL req)) = Inr c"
      and "backend = (if Scheme (URL req) = ''https'' then TLSClient c (TLSClientConfig p) else c)"
      and "ConnRoundTrip W backend req = Inr res"
      and "StatusCode res \<noteq> 101"
  shows "serveUpgrade H W p w req =
          (w\<lparr>WHeader := copyHeader H (WHeader w) (relayedHeader H res),
             Trace := Trace w @
               [EvDial ''tcp'' (Host (URL req)),
                EvConnRoundTrip backend req,
                EvWriteHeader (StatusCode res) (copyHeader H (WHeader w) (relayedHeader H res)),
                EvWrite (RespBody res),
                EvBodyClose,
                EvBackendClose backend]\<rparr>,
           Returned)"
  using assms by (rule serveUpgrade_not_switched)

theorem upgrade_refused_relayed_witness:
  "(case DialContext plainProxy of None \<Rightarrow> DefaultDial (backendWorld 200 plainHeader) | Some d \<Rightarrow> d)
       ''tcp'' (Host (URL upgradeRequest)) = Inr (NetConn 1)
   \<and> ConnRoundTrip (backendWorld 200 plainHeader) (NetConn 1) upgradeRequest = Inr (backendResponse 200 plainHeader)
   \<and> StatusCode (backendResponse 200 plainHeader) \<noteq> 101
   \<and> snd (serveUpgrade specHelpers (backendWorld 200 plainHeader) plainProxy freshWriter upgradeRequest) = Returned
   \<and> map (\<lambda>(code, h). (code, h ''Content-Type'', h ''Keep-Alive''))
         (writtenHeaders (Trace (fst (serveUpgrade specHelpers (backendWorld 200 plainHeader) plainProxy freshWriter upgradeRequest))))
       = [(200, Some [''text/plain''], None)]
   \<and> EvHijack \<notin> set (Trace (fst (serveUpgrade specHelpers (backendWorld 200 plainHeader) plainProxy freshWriter upgradeRequest)))
   \<and> last (Trace (fst (serveUpgrade specHelpers (backendWorld 200 plainHeader) plainProxy freshWriter upgradeRequest)))
       = EvBackendClose (NetConn 1)"
proof -
  let ?W = "backendWorld 200 plainHeader"
  have h1: "(case DialContext plainProxy of None \<Rightarrow> DefaultDial ?W | Some d \<Rightarrow> d)
       ''tcp'' (Host (URL upgradeRequest)) = Inr (NetConn 1)"
    by (simp add: plainProxy_def backendWorld_def)
  have h2: "NetConn 1 = (if Scheme (URL upgradeRequest) = ''https''
                         then TLSClient (NetConn 1) (TLSClientConfig plainProxy) else NetConn 1)"
    by (simp add: upgradeRequest_def clientRequest_def)
  have h3: "ConnRoundTrip ?W (NetConn 1) upgradeRequest = Inr (backendResponse 200 plainHeader)"
    by (simp add: backendWorld_def)
  have h4: "StatusCode (backendResponse 200 plainHeader) \<noteq> 101"
    by (simp add: backendResponse_def)
  have hd: "copyHeader specHelpers (WHeader freshWriter) (relayedHeader specHelpers (backendResponse 200 plainHeader)) ''Content-Type'' = Some [''text/plain'']
     \<and> copyHeader specHelpers (WHeader freshWriter) (relayedHeader specHelpers (backendResponse 200 plainHeader)) ''Keep-Alive'' = None"
    by (simp add: relayedHeader_def backendResponse_def plainHeader_def freshWriter_def spec_defs Let_def)
  note r = upgrade_refused_relayed [OF h1 h2 h3 h4, of specHelpers freshWriter]
  show ?thesis
    unfolding r using h1 h3 h4 hd by (simp add: freshWriter_def backendResponse_def)
qed

subsection \<open>C8: the response is written before the takeover\<close>



subsection \<open>C9: a request that cannot be dumped\<close>

text \<open>
  C9, as the code has it. For every \<^verbatim>\<open>TRACE\<close> loopback in which
  \<^verbatim>\<open>httputil.DumpRequest\<close> fails, \<open>serveTRACE\<close> panics with that error (line 218): it
  sets no header and writes neither a status nor a body, so no 500 response is produced by
  the handler and the failure goes up to the serving layer as a panic.
\<close>

theorem trace_dump_failure_panics:
  assumes "DumpRequest W req True = Inl err"
  shows "serveTRACE W w req = (w, Panicked err)"
  using assms by (simp add: serveTRACE_def)

theorem trace_dump_failure_panics_witness:
  "DumpRequest brokenDumpWorld traceRequest True = Inl ''unexpected EOF''
   \<and> serveTRACE brokenDumpWorld freshWriter traceRequest = (freshWriter, Panicked ''unexpected EOF'')"
proof -
  have h: "DumpRequest brokenDumpWorld traceRequest True = Inl ''unexpected EOF''"
    by (simp add: brokenDumpWorld_def)
  from trace_dump_failure_panics [OF h, of freshWriter] h show ?thesis by (simp only: simp_thms)
qed

text \<open>
  The claim as the specification states it, a clean 500 response, fails: with a dump that
  fails the handler called on the sample \<^verbatim>\<open>TRACE\<close> request ends in a panic and has
  written nothing.
\<close>

theorem trace_dump_failure_no_500:
  "DumpRequest brokenDumpWorld
       (addProxyHeaders specHelpers traceRequest (newOutreq specHelpers traceRequest)) True
     = Inl ''unexpected EOF''
   \<and> snd (ServeHTTP specHelpers brokenDumpWorld plainProxy freshWriter traceRequest)
       = Panicked ''unexpected EOF''
   \<and> Trace (fst (ServeHTTP specHelpers brokenDumpWorld plainProxy freshWriter traceRequest)) = []"
  by (simp add: ServeHTTP_def newOutreq_def addProxyHeaders_def dispatch_def serveTRACE_def
        requestLocalAddr_def contextLocalAddr_def dec64_def
        brokenDumpWorld_def freshWriter_def traceRequest_def clientRequest_def spec_defs Let_def)

subsection \<open>C10: what the TRACE loopback dumps\<close>

text \<open>
  C10. When a \<^verbatim>\<open>TRACE\<close> request is answered locally (it has a target host, and its
  \<^verbatim>\<open>Max-Forwards\<close> decrements to zero or does not parse), the body written after the
  status 200 and the content type \<^verbatim>\<open>message/http\<close> is the dump of the outbound request,
  not of the inbound one: the request whose protocol is pinned to HTTP/1.1 and whose
  headers are the inbound ones copied, stripped of the hop-by-hop fields and extended by
  the proxy's \<^verbatim>\<open>Forwarded\<close> hop and \<^verbatim>\<open>Via\<close> entry.
\<close>

theorem trace_dumps_outbound_request:
  assumes "Method req = ''TRACE''"
      and "Host (URL (newOutreq H req)) \<noteq> ''''"
      and "out = addProxyHeaders H req (newOutreq H req)"
      and "dec64 (fst (maxForwards H (Header out))) = 0 \<or> snd (maxForwards H (Header out)) \<noteq> None"
      and "DumpRequest W out True = Inr content"
  shows "ServeHTTP H W p w req =
           (w\<lparr>WHeader := (WHeader w)(''Content-Type'' \<mapsto> [''message/http'']),
              Trace := Trace w @ [EvWriteHeader 200 ((WHeader w)(''Content-Type'' \<mapsto> [''message/http''])),
                                  EvWrite content]\<rparr>, Returned)
         \<and> Proto out = ''HTTP/1.1'' \<and> ProtoMajor out = 1 \<and> ProtoMinor out = 1
         \<and> Header out =
             addVia H
               (addForwarded H
                  (if deleteHopFields H (copyHeader H Map.empty (Header req)) ''Forwarded'' = None
                   then translateXForwarded H (deleteHopFields H (copyHeader H Map.empty (Header req)))
                   else deleteHopFields H (copyHeader H Map.empty (Header req)))
                  (Scheme (URL (newOutreq H req))) (RemoteAddr req) (requestLocalAddr req))
               (protoVersion H req) (requestLocalAddr req)"
proof -
  have m: "Method out = ''TRACE''"
    using assms(1,3) by (simp add: addProxyHeaders_fields newOutreq_fields)
  have d: "dispatch H W p w req out = serveTRACE W w out"
    using m assms(4) by (cases "maxForwards H (Header out)") (auto simp add: dispatch_def Let_def)
  have s: "ServeHTTP H W p w req = serveTRACE W w out"
    using assms(2,3) d by (simp add: ServeHTTP_def Let_def)
  have t: "serveTRACE W w out =
           (w\<lparr>WHeader := (WHeader w)(''Content-Type'' \<mapsto> [''message/http'']),
              Trace := Trace w @ [EvWriteHeader 200 ((WHeader w)(''Content-Type'' \<mapsto> [''message/http''])),
                                  EvWrite content]\<rparr>, Returned)"
    using assms(5) by (simp add: serveTRACE_def HeaderSet_def WriteHeader_def Write_def emit_def Let_def)
  have pr: "Proto out = ''HTTP/1.1'' \<and> ProtoMajor out = 1 \<and> ProtoMinor out = 1"
    using assms(3) by (simp add: addProxyHeaders_fields newOutreq_fields)
  have hd: "Header out =
             addVia H
               (addForwarded H
                  (if deleteHopFields H (copyHeader H Map.empty (Header req)) ''Forwarded'' = None
                   then translateXForwarded H (deleteHopFields H (copyHeader H Map.empty (Header req)))
                   else deleteHopFields H (copyHeader H Map.empty (Header req)))
                  (Scheme (URL (newOutreq H req))) (RemoteAddr req) (requestLocalAddr req))
               (protoVersion H req) (requestLocalAddr req)"
    unfolding assms(3) by (simp only: addProxyHeaders_Header newOutreq_fields(6))
  from s t pr hd show ?thesis by (simp only: simp_thms)
qed

theorem trace_dumps_outbound_request_witness:
  "Method traceRequest = ''TRACE''
   \<and> Host (URL (newOutreq specHelpers traceRequest)) \<noteq> ''''
   \<and> dec64 (fst (maxForwards specHelpers (Header (addProxyHeaders specHelpers traceRequest (newOutreq specHelpers traceRequest))))) = 0
   \<and> DumpRequest (backendWorld 200 plainHeader) (addProxyHeaders specHelpers traceRequest (newOutreq specHelpers traceRequest)) True
       = Inr ''TRACE / HTTP/1.1''
   \<and> ServeHTTP specHelpers (backendWorld 200 plainHeader) plainProxy freshWriter traceRequest
       = (\<lparr>WHeader = [''Content-Type'' \<mapsto> [''message/http'']],
           Trace = [EvWriteHeader 200 [''Content-Type'' \<mapsto> [''message/http'']], EvWrite ''TRACE / HTTP/1.1'']\<rparr>,
          Returned)
   \<and> Header (addProxyHeaders specHelpers traceRequest (newOutreq specHelpers traceRequest)) ''Via''
       = Some [''1.0 10.0.0.1:8080'']
   \<and> Header (addProxyHeaders specHelpers traceRequest (newOutreq specHelpers traceRequest)) ''Forwarded''
       = Some [''proto=http;for=10.0.0.7;by=\"10.0.0.1:8080\"'']
   \<and> Header (addProxyHeaders specHelpers traceRequest (newOutreq specHelpers traceRequest)) ''Keep-Alive'' = None"
proof -
  let ?W = "backendWorld 200 plainHeader"
  let ?out = "addProxyHeaders specHelpers traceRequest (newOutreq specHelpers traceRequest)"
  have h1: "Method traceRequest = ''TRACE''"
    by (simp add: traceRequest_def clientRequest_def)
  have h2: "Host (URL (newOutreq specHelpers traceRequest)) \<noteq> ''''"
    by (simp add: newOutreq_fields traceRequest_def clientRequest_def)
  have mf: "Header ?out ''Max-Forwards'' = Some [''1'']"
    by (simp add: addProxyHeaders_Header newOutreq_fields traceRequest_def clientRequest_def spec_defs)
  have h4a: "dec64 (fst (maxForwards specHelpers (Header ?out))) = 0"
    using mf by (simp add: specHelpers_def specMaxForwards_def HeaderGet_def Atoi_def digitVal_def dec64_def)
  have h4: "dec64 (fst (maxForwards specHelpers (Header ?out))) = 0 \<or> snd (maxForwards specHelpers (Header ?out)) \<noteq> None"
    using h4a by simp
  have h5: "DumpRequest ?W ?out True = Inr ''TRACE / HTTP/1.1''"
    by (simp add: backendWorld_def addProxyHeaders_fields newOutreq_fields h1
          newOutreq_def traceRequest_def clientRequest_def Let_def)
  have v: "Header ?out ''Via'' = Some [''1.0 10.0.0.1:8080'']
     \<and> Header ?out ''Forwarded'' = Some [''proto=http;for=10.0.0.7;by=\"10.0.0.1:8080\"'']
     \<and> Header ?out ''Keep-Alive'' = None"
    by (simp add: addProxyHeaders_Header newOutreq_def requestLocalAddr_def contextLocalAddr_def
          traceRequest_def clientRequest_def spec_defs Let_def)
  note r = trace_dumps_outbound_request [OF h1 h2 refl h4 h5, of plainProxy freshWriter]
  from r have s: "ServeHTTP specHelpers ?W plainProxy freshWriter traceRequest
       = (\<lparr>WHeader = [''Content-Type'' \<mapsto> [''message/http'']],
           Trace = [EvWriteHeader 200 [''Content-Type'' \<mapsto> [''message/http'']], EvWrite ''TRACE / HTTP/1.1'']\<rparr>,
          Returned)"
    by (simp add: freshWriter_def)
  from h1 h2 h4a h5 s v show ?thesis by (simp only: simp_thms)
qed

end
